theory Spec2Isabelle
  imports Complex_Main
begin

section \<open>Data model\<close>

text \<open>
  Times are seconds. The source computes with Python floats; the model computes with
  exact reals and rounds to a double where a claim depends on it, in the subtraction of
  the guard of \<open>create_highlight_video\<close>.

  A subtitle segment is the dict built by \<open>extract_subtitles\<close> (keys \<open>id\<close>, \<open>start\<close>,
  \<open>end\<close>, \<open>text\<close>, \<open>confidence\<close>). The key \<open>confidence\<close> is read with
  \<open>sub.get('confidence', 0)\<close>, so it may be absent: it is an option.
  A highlight is the dict parsed from the model's JSON answer (\<open>start\<close>, \<open>end\<close>,
  \<open>reason\<close>, \<open>score\<close>).
\<close>

record subtitle =
  sub_id :: int
  sub_start :: real
  sub_end :: real
  sub_text :: string
  sub_confidence :: "real option"

record highlight =
  hl_start :: real
  hl_end :: real
  hl_reason :: string
  hl_score :: real

section \<open>subtitle\_extractor.py\<close>

subsection \<open>filter\_subtitles\_for\_highlights\<close>

text \<open>
  The offset of a highlight segment, computed before the inner loop runs:
  \<open>filtered[-1]['end']\<close> when \<open>filtered\<close> is non-empty, else 0.
\<close>

definition offset_for :: "subtitle list \<Rightarrow> real" where
  "offset_for filtered = (if filtered \<noteq> [] then sub_end (last filtered) else 0)"

text \<open>The test of the inner loop: the subtitle overlaps the highlight.\<close>

definition overlaps :: "highlight \<Rightarrow> subtitle \<Rightarrow> bool" where
  "overlaps h sub \<longleftrightarrow> sub_end sub > hl_start h \<and> sub_start sub < hl_end h"

text \<open>The dict appended to \<open>filtered\<close> for an overlapping subtitle.\<close>

definition retimed :: "highlight \<Rightarrow> real \<Rightarrow> int \<Rightarrow> subtitle \<Rightarrow> subtitle" where
  "retimed h offset subtitle_id sub =
     (let h_start = hl_start h;
          h_end = hl_end h;
          new_start = max 0 (sub_start sub - h_start) + offset;
          new_end = min (sub_end sub - h_start) (h_end - h_start) + offset
      in \<lparr> sub_id = subtitle_id,
           sub_start = new_start,
           sub_end = new_end,
           sub_text = sub_text sub,
           sub_confidence = Some (case sub_confidence sub of None \<Rightarrow> 0 | Some c \<Rightarrow> c) \<rparr>)"

text \<open>
  The inner loop \<open>for sub in subtitles\<close>, on the loop state \<open>(filtered, subtitle_id)\<close>;
  \<open>offset\<close> is fixed for the whole loop.
\<close>

fun inner_loop ::
  "highlight \<Rightarrow> real \<Rightarrow> subtitle list \<Rightarrow> subtitle list \<times> int \<Rightarrow> subtitle list \<times> int" where
  "inner_loop h offset [] (filtered, subtitle_id) = (filtered, subtitle_id)"
| "inner_loop h offset (sub # subs) (filtered, subtitle_id) =
     (if overlaps h sub
      then inner_loop h offset subs
             (filtered @ [retimed h offset subtitle_id sub], subtitle_id + 1)
      else inner_loop h offset subs (filtered, subtitle_id))"

text \<open>The outer loop \<open>for highlight in highlights\<close>.\<close>

fun outer_loop ::
  "subtitle list \<Rightarrow> highlight list \<Rightarrow> subtitle list \<times> int \<Rightarrow> subtitle list \<times> int" where
  "outer_loop subtitles [] st = st"
| "outer_loop subtitles (h # hs) (filtered, subtitle_id) =
     outer_loop subtitles hs
       (inner_loop h (offset_for filtered) subtitles (filtered, subtitle_id))"

definition filter_subtitles_for_highlights :: "subtitle list \<Rightarrow> highlight list \<Rightarrow> subtitle list" where
  "filter_subtitles_for_highlights subtitles highlights =
     fst (outer_loop subtitles highlights ([], 0))"

text \<open>
  An auxiliary function used to state what the loops compute: the dicts the inner loop
  appends for a list of overlapping subtitles, numbered from \<open>i\<close>.
\<close>

fun number_from :: "highlight \<Rightarrow> real \<Rightarrow> int \<Rightarrow> subtitle list \<Rightarrow> subtitle list" where
  "number_from h offset i [] = []"
| "number_from h offset i (s # ss) = retimed h offset i s # number_from h offset (i + 1) ss"

text \<open>A segment lies within the video \<open>[0, D]\<close> and has \<open>end > start\<close>.\<close>

definition in_video :: "real \<Rightarrow> subtitle \<Rightarrow> bool" where
  "in_video D s \<longleftrightarrow> 0 \<le> sub_start s \<and> sub_start s < sub_end s \<and> sub_end s \<le> D"

text \<open>A segment with its id replaced by its position and a missing confidence set to 0.\<close>

definition renumbered :: "nat \<times> subtitle \<Rightarrow> subtitle" where
  "renumbered p = (snd p)\<lparr> sub_id := int (fst p),
       sub_confidence := Some (case sub_confidence (snd p) of None \<Rightarrow> 0 | Some c \<Rightarrow> c) \<rparr>"

subsection \<open>Exceptions\<close>

text \<open>
  Every exception the modelled code raises or catches. \<open>Failure\<close> stands for an
  exception raised inside an external tool or library (ffmpeg, yt-dlp, moviepy, the OpenAI
  client, the file system). A message is either a literal text or \<open>str(e)\<close> of an
  exception, kept symbolic because its rendering belongs to the library that defines it.
\<close>

datatype exc =
    HTTPException nat msg
  | Failure string
  | KeyError string
  | OverflowError
  | ZeroDivisionError
  | ConnectionClosed
and msg =
    Text string
  | StrOf exc

subsection \<open>format\_time and generate\_srt\<close>

text \<open>Decimal rendering of integers, as \<open>str(n)\<close> and the format \<open>{n:0wd}\<close> do.\<close>

fun str_nat :: "nat \<Rightarrow> string" where
  "str_nat n = (if n < 10 then [''0123456789'' ! n]
                else str_nat (n div 10) @ [''0123456789'' ! (n mod 10)])"

declare str_nat.simps [simp del]

definition str_int :: "int \<Rightarrow> string" where
  "str_int n = (if n < 0 then ''-'' @ str_nat (nat (- n)) else str_nat (nat n))"

definition zero_pad :: "nat \<Rightarrow> string \<Rightarrow> string" where
  "zero_pad width s = replicate (width - length s) CHR ''0'' @ s"

definition format_d :: "nat \<Rightarrow> int \<Rightarrow> string" where
  "format_d width n =
     (if n < 0 then ''-'' @ zero_pad (width - 1) (str_nat (nat (- n)))
      else zero_pad width (str_nat (nat n)))"

text \<open>
  \<open>timedelta(seconds=s)\<close>: the duration is rounded to a whole number of microseconds
  (ties to even) and normalised to \<open>days\<close>, \<open>0 \<le> seconds < 86400\<close> and
  \<open>0 \<le> microseconds < 1000000\<close>; more than 999999999 days is an \<open>OverflowError\<close>.
\<close>

record timedelta =
  td_days :: int
  td_seconds :: int
  td_microseconds :: int

definition round_half_even :: "real \<Rightarrow> int" where
  "round_half_even x =
     (let f = \<lfloor>x\<rfloor>; d = x - of_int f
      in if d < 1 / 2 then f
         else if 1 / 2 < d then f + 1
         else if even f then f else f + 1)"

definition timedelta_seconds :: "real \<Rightarrow> exc + timedelta" where
  "timedelta_seconds s =
     (let us = round_half_even (s * 1000000);
          d = us div 86400000000;
          r = us mod 86400000000
      in if \<bar>d\<bar> > 999999999 then Inl OverflowError
         else Inr \<lparr> td_days = d, td_seconds = r div 1000000, td_microseconds = r mod 1000000 \<rparr>)"

definition format_time :: "real \<Rightarrow> exc + string" where
  "format_time seconds =
     (case timedelta_seconds seconds of
        Inl e \<Rightarrow> Inl e
      | Inr td \<Rightarrow>
          (let hours = td_seconds td div 3600;
               minutes = (td_seconds td mod 3600) div 60;
               secs = td_seconds td mod 60;
               milliseconds = td_microseconds td div 1000
           in Inr (format_d 2 hours @ '':'' @ format_d 2 minutes @ '':'' @ format_d 2 secs
                   @ '','' @ format_d 3 milliseconds)))"

definition newline :: string where
  "newline = [CHR 0x0A]"

text \<open>The loop \<open>for idx, sub in enumerate(subtitles, 1)\<close> on the accumulator \<open>srt_content\<close>.\<close>

fun srt_loop :: "int \<Rightarrow> subtitle list \<Rightarrow> string \<Rightarrow> exc + string" where
  "srt_loop idx [] srt_content = Inr srt_content"
| "srt_loop idx (sub # subs) srt_content =
     (case format_time (sub_start sub) of
        Inl e \<Rightarrow> Inl e
      | Inr t1 \<Rightarrow>
          (case format_time (sub_end sub) of
             Inl e \<Rightarrow> Inl e
           | Inr t2 \<Rightarrow>
               srt_loop (idx + 1) subs
                 (srt_content @ str_int idx @ newline
                              @ t1 @ '' --> '' @ t2 @ newline
                              @ sub_text sub @ newline @ newline)))"

definition generate_srt :: "subtitle list \<Rightarrow> exc + string" where
  "generate_srt subtitles = srt_loop 1 subtitles []"

section \<open>config.py\<close>

definition UPLOAD_DIR :: string where
  "UPLOAD_DIR = ''uploads''"

definition OUTPUT_DIR :: string where
  "OUTPUT_DIR = ''outputs''"

definition TARGET_RESOLUTION :: "int \<times> int" where
  "TARGET_RESOLUTION = (1080, 1920)"

definition MIN_HIGHLIGHT_DURATION :: int where
  "MIN_HIGHLIGHT_DURATION = 2"

definition MAX_VIDEO_SIZE_MB :: int where
  "MAX_VIDEO_SIZE_MB = 500"

section \<open>video\_processor.py\<close>

subsection \<open>resize\_video: the geometry\<close>

text \<open>
  What \<open>resize_video\<close> computes from \<open>video.size = (input_w, input_h)\<close>: the size
  passed to \<open>resize\<close> and the box passed to \<open>crop\<close>. The written video has the
  size of the crop box. \<open>int(x)\<close> truncates towards zero; \<open>/\<close> on a zero divisor raises.
\<close>

record resize_plan =
  new_w :: int
  new_h :: int
  crop_x1 :: int
  crop_y1 :: int
  crop_x2 :: int
  crop_y2 :: int

definition py_int :: "real \<Rightarrow> int" where
  "py_int x = (if 0 \<le> x then \<lfloor>x\<rfloor> else \<lceil>x\<rceil>)"

definition resize_geometry :: "int \<times> int \<Rightarrow> int \<times> int \<Rightarrow> exc + resize_plan" where
  "resize_geometry target_resolution video_size =
     (let (input_w, input_h) = video_size;
          (target_h, target_w) = target_resolution
      in if input_w = 0 \<or> input_h = 0 then Inl ZeroDivisionError
         else
           (let scale_w = real_of_int target_w / real_of_int input_w;
                scale_h = real_of_int target_h / real_of_int input_h;
                scale = max scale_w scale_h;
                new_w = py_int (real_of_int input_w * scale);
                new_h = py_int (real_of_int input_h * scale);
                x_center = (new_w - target_w) div 2;
                y_center = (new_h - target_h) div 2
            in Inr \<lparr> new_w = new_w, new_h = new_h,
                     crop_x1 = x_center, crop_y1 = y_center,
                     crop_x2 = x_center + target_w, crop_y2 = y_center + target_h \<rparr>))"

text \<open>Width and height of the cropped (written) video.\<close>

definition output_size :: "resize_plan \<Rightarrow> int \<times> int" where
  "output_size p = (crop_x2 p - crop_x1 p, crop_y2 p - crop_y1 p)"

subsection \<open>Float subtraction\<close>

text \<open>
  The guard of \<open>create_highlight_video\<close> compares the Python float \<open>end - start\<close>
  with 0.5. A float subtraction is the exact difference rounded to the nearest double
  (53 significant bits, ties to even). \<open>binade\<close> finds the exponent \<open>e\<close> with
  \<open>2^e \<le> x < 2^(e+1)\<close>; its bound of 1100 steps exceeds the exponent range of doubles,
  and below \<open>2^-1022\<close> the spacing of doubles is constant. Overflow to infinity is not
  represented.
\<close>

fun binade :: "nat \<Rightarrow> real \<Rightarrow> int \<Rightarrow> int" where
  "binade fuel x e =
     (if fuel = 0 then e
      else if x < 1 then binade (fuel - 1) (2 * x) (e - 1)
      else if 2 \<le> x then binade (fuel - 1) (x / 2) (e + 1)
      else e)"

declare binade.simps [simp del]

definition ulp :: "real \<Rightarrow> real" where
  "ulp x =
     (let e = max (binade 1100 \<bar>x\<bar> 0) (- 1022) - 52
      in if 0 \<le> e then 2 ^ nat e else 1 / 2 ^ nat (- e))"

definition double_round :: "real \<Rightarrow> real" where
  "double_round x =
     (if x = 0 then 0 else real_of_int (round_half_even (x / ulp x)) * ulp x)"

definition fsub :: "real \<Rightarrow> real \<Rightarrow> real" where
  "fsub a b = double_round (a - b)"

subsection \<open>create\_highlight\_video: the clip selection\<close>

text \<open>
  The loop \<open>for highlight in highlights\<close> on the accumulator \<open>clips\<close>; a clip is the
  pair \<open>(start, end)\<close> passed to \<open>video.subclip\<close>.
\<close>

fun clips_loop :: "real \<Rightarrow> highlight list \<Rightarrow> (real \<times> real) list \<Rightarrow> (real \<times> real) list" where
  "clips_loop duration [] clips = clips"
| "clips_loop duration (h # hs) clips =
     (let start = max 0 (hl_start h);
          end = min duration (hl_end h)
      in if fsub end start > 1 / 2
         then clips_loop duration hs (clips @ [(start, end)])
         else clips_loop duration hs clips)"

text \<open>
  A highlight's range clamped as the loop does, the length of a range as the code
  computes it, and its exact length.
\<close>

definition clamped :: "real \<Rightarrow> highlight \<Rightarrow> real \<times> real" where
  "clamped duration h = (max 0 (hl_start h), min duration (hl_end h))"

definition float_span :: "real \<times> real \<Rightarrow> real" where
  "float_span c = fsub (snd c) (fst c)"

definition span :: "real \<times> real \<Rightarrow> real" where
  "span c = snd c - fst c"

section \<open>main.py\<close>

subsection \<open>State\<close>

text \<open>
  A job is the dict stored in \<open>jobs[job_id]\<close>. The dict written when a submission fails
  has only the keys \<open>status\<close> and \<open>message\<close>, so every other key is an option.
\<close>

datatype job_status = Processing | Completed | Error

record metadata =
  md_job_id :: string
  md_filename :: string
  md_highlights :: "highlight list"
  md_subtitles :: "subtitle list"
  md_num_highlights :: nat
  md_num_subtitles :: nat
  md_processed_at :: string

record job =
  status :: job_status
  progress :: "int option"
  message :: msg
  created_at :: "string option"
  output_dir :: "string option"
  job_metadata :: "metadata option"

datatype task =
    VideoTask string string string
  | UrlTask string string

text \<open>
  What happens to job dicts, in order: an assignment to \<open>jobs[job_id]\<close> or to one of its
  keys, with the dict as it is after the assignment, and a call of
  \<open>manager.broadcast(job_id, message)\<close>.
\<close>

datatype event =
    Write string job
  | Publish string job

fun event_id :: "event \<Rightarrow> string" where
  "event_id (Write job_id j) = job_id"
| "event_id (Publish job_id j) = job_id"

fun event_job :: "event \<Rightarrow> job" where
  "event_job (Write job_id j) = j"
| "event_job (Publish job_id j) = j"

text \<open>
  The state the module works on: the global dict \<open>jobs\<close>; the dict
  \<open>manager.active_connections\<close>, from job id to the list of its websockets (a websocket is
  a handle); the websockets whose peer has gone, on which \<open>send_json\<close> raises; the
  messages successfully sent, in order; the paths that exist in the file system; the
  background tasks added so far. \<open>log\<close> is a history variable: the events so far.
\<close>

record world =
  jobs :: "string \<rightharpoonup> job"
  active_connections :: "string \<rightharpoonup> nat list"
  closed :: "nat set"
  received :: "(nat \<times> job) list"
  files :: "string set"
  tasks :: "task list"
  log :: "event list"

text \<open>The arguments of every call of \<open>manager.broadcast\<close>, in order.\<close>

fun publishes :: "event list \<Rightarrow> (string \<times> job) list" where
  "publishes [] = []"
| "publishes (Write job_id j # es) = publishes es"
| "publishes (Publish job_id j # es) = (job_id, j) # publishes es"

definition published :: "world \<Rightarrow> (string \<times> job) list" where
  "published w = publishes (log w)"

text \<open>
  A statement that may raise: from a state to a result and the state it leaves. An
  exception keeps the mutations made before it.
\<close>

type_synonym 'a action = "world \<Rightarrow> (exc + 'a) \<times> world"

definition bind :: "'a action \<Rightarrow> ('a \<Rightarrow> 'b action) \<Rightarrow> 'b action" where
  "bind m f w = (case m w of (Inl e, w') \<Rightarrow> (Inl e, w') | (Inr x, w') \<Rightarrow> f x w')"

definition return :: "'a \<Rightarrow> 'a action" where
  "return x w = (Inr x, w)"

definition raise :: "exc \<Rightarrow> 'a action" where
  "raise e w = (Inl e, w)"

text \<open>
  The outcomes of the external collaborators during one run, and the clock. \<open>None\<close> in
  an \<open>exc option\<close> means the call succeeded.
\<close>

record adapters =
  makedirs :: "exc option"
  download :: "exc option"
  extract_audio :: "exc option"
  extract_subtitles :: "exc + subtitle list"
  detect_highlights :: "exc + highlight list"
  video_size :: "exc + int \<times> int"
  resize_write :: "exc option"
  srt_write :: "exc option"
  add_subtitles :: "exc option"
  video_duration :: "exc + real"
  highlight_write :: "exc option"
  metadata_write :: "exc option"
  now :: string

text \<open>An external call that raises or succeeds, and one that also returns a value.\<close>

definition external :: "exc option \<Rightarrow> unit action" where
  "external r = (case r of Some e \<Rightarrow> raise e | None \<Rightarrow> return ())"

definition external_value :: "exc + 'a \<Rightarrow> 'a action" where
  "external_value r = (case r of Inl e \<Rightarrow> raise e | Inr x \<Rightarrow> return x)"

text \<open>A file written at a path.\<close>

definition write_file :: "string \<Rightarrow> unit action" where
  "write_file path w = (Inr (), w\<lparr> files := insert path (files w) \<rparr>)"

definition path_join :: "string \<Rightarrow> string \<Rightarrow> string" where
  "path_join a b = a @ ''/'' @ b"

subsection \<open>ConnectionManager.broadcast\<close>

definition send_json :: "nat \<Rightarrow> job \<Rightarrow> unit action" where
  "send_json connection m w =
     (if connection \<in> closed w then (Inl ConnectionClosed, w)
      else (Inr (), w\<lparr> received := received w @ [(connection, m)] \<rparr>))"

text \<open>
  The loop \<open>for connection in self.active_connections[job_id]\<close>, whose body is
  \<open>try: await connection.send_json(message)\<close>, \<open>except: pass\<close>.
\<close>

fun broadcast_loop :: "nat list \<Rightarrow> job \<Rightarrow> world \<Rightarrow> world" where
  "broadcast_loop [] m w = w"
| "broadcast_loop (connection # connections) m w =
     (case send_json connection m w of
        (Inl e, w') \<Rightarrow> broadcast_loop connections m w'
      | (Inr u, w') \<Rightarrow> broadcast_loop connections m w')"

definition broadcast :: "string \<Rightarrow> job \<Rightarrow> unit action" where
  "broadcast job_id m w =
     (let w1 = w\<lparr> log := log w @ [Publish job_id m] \<rparr>
      in case active_connections w1 job_id of
           None \<Rightarrow> (Inr (), w1)
         | Some connections \<Rightarrow> (Inr (), broadcast_loop connections m w1))"

subsection \<open>update\_job and the two other blocks that write a job\<close>

text \<open>
  An assignment \<open>jobs[job_id][key] = value\<close>, given as the change it makes to the dict,
  and the statement \<open>await manager.broadcast(job_id, jobs[job_id])\<close>.
  \<open>jobs[job_id]\<close> of an unknown id is a \<open>KeyError\<close>.
\<close>

definition write_key :: "string \<Rightarrow> (job \<Rightarrow> job) \<Rightarrow> unit action" where
  "write_key job_id f w =
     (case jobs w job_id of
        None \<Rightarrow> (Inl (KeyError job_id), w)
      | Some j \<Rightarrow>
          (Inr (), w\<lparr> jobs := (jobs w)(job_id \<mapsto> f j),
                      log := log w @ [Write job_id (f j)] \<rparr>))"

definition publish_job :: "string \<Rightarrow> unit action" where
  "publish_job job_id w =
     (case jobs w job_id of
        None \<Rightarrow> (Inl (KeyError job_id), w)
      | Some j \<Rightarrow> broadcast job_id j w)"

text \<open>
  Each block assigns its keys one after the other and then publishes; there is no
  suspension point between the assignments.
\<close>

definition update_job :: "string \<Rightarrow> job_status \<Rightarrow> int \<Rightarrow> msg \<Rightarrow> unit action" where
  "update_job job_id st prog text =
     bind (write_key job_id (\<lambda>j. j\<lparr> status := st \<rparr>)) (\<lambda>_.
     bind (write_key job_id (\<lambda>j. j\<lparr> progress := Some (min prog 100) \<rparr>)) (\<lambda>_.
     bind (write_key job_id (\<lambda>j. j\<lparr> message := text \<rparr>)) (\<lambda>_.
     publish_job job_id)))"

text \<open>Lines 250 to 256 of \<open>process_video_async\<close>.\<close>

definition complete_job :: "string \<Rightarrow> string \<Rightarrow> metadata \<Rightarrow> unit action" where
  "complete_job job_id job_output_dir md =
     bind (write_key job_id (\<lambda>j. j\<lparr> status := Completed \<rparr>)) (\<lambda>_.
     bind (write_key job_id (\<lambda>j. j\<lparr> progress := Some 100 \<rparr>)) (\<lambda>_.
     bind (write_key job_id
             (\<lambda>j. j\<lparr> message := Text ''Processing completed successfully!'' \<rparr>)) (\<lambda>_.
     bind (write_key job_id (\<lambda>j. j\<lparr> output_dir := Some job_output_dir \<rparr>)) (\<lambda>_.
     bind (write_key job_id (\<lambda>j. j\<lparr> job_metadata := Some md \<rparr>)) (\<lambda>_.
     publish_job job_id)))))"

text \<open>The \<open>except Exception as e\<close> branch of both \<open>process_url_async\<close> and \<open>process_video_async\<close>.\<close>

definition fail_job :: "string \<Rightarrow> exc \<Rightarrow> unit action" where
  "fail_job job_id e =
     bind (write_key job_id (\<lambda>j. j\<lparr> status := Error \<rparr>)) (\<lambda>_.
     bind (write_key job_id (\<lambda>j. j\<lparr> message := StrOf e \<rparr>)) (\<lambda>_.
     publish_job job_id))"

subsection \<open>The stateful steps of video\_processor.py\<close>

definition resize_video :: "adapters \<Rightarrow> int \<times> int \<Rightarrow> string \<Rightarrow> unit action" where
  "resize_video ad target_resolution output_path =
     bind (external_value (video_size ad)) (\<lambda>sz.
     bind (external_value (resize_geometry target_resolution sz)) (\<lambda>plan.
     bind (external (resize_write ad)) (\<lambda>_.
     write_file output_path)))"

text \<open>
  \<open>create_highlight_video\<close>: the file is written only \<open>if clips\<close>; the function returns
  normally in both cases.
\<close>

definition create_highlight_video :: "adapters \<Rightarrow> highlight list \<Rightarrow> string \<Rightarrow> unit action" where
  "create_highlight_video ad highlights output_path =
     bind (external_value (video_duration ad)) (\<lambda>duration.
       (let clips = clips_loop duration highlights []
        in if clips \<noteq> []
           then bind (external (highlight_write ad)) (\<lambda>_. write_file output_path)
           else return ()))"

subsection \<open>process\_video\_async and process\_url\_async\<close>

definition process_video_async_try ::
  "adapters \<Rightarrow> string \<Rightarrow> string \<Rightarrow> string \<Rightarrow> int \<Rightarrow> unit action" where
  "process_video_async_try ad job_id video_path filename start_progress =
     (let job_output_dir = path_join OUTPUT_DIR job_id;
          audio_path = path_join job_output_dir ''audio.mp3'';
          resized_path = path_join job_output_dir ''resized.mp4'';
          srt_path = path_join job_output_dir ''subtitles.srt'';
          final_path = path_join job_output_dir ''final_with_subtitles.mp4'';
          highlight_path = path_join job_output_dir ''highlights.mp4''
      in
     bind (external (makedirs ad)) (\<lambda>_.
     bind (update_job job_id Processing (start_progress + 20) (Text ''Extracting audio...'')) (\<lambda>_.
     bind (external (extract_audio ad)) (\<lambda>_.
     bind (write_file audio_path) (\<lambda>_.
     bind (update_job job_id Processing (start_progress + 35)
             (Text ''Extracting subtitles using Whisper...'')) (\<lambda>_.
     bind (external_value (extract_subtitles ad)) (\<lambda>subtitles.
     bind (update_job job_id Processing (start_progress + 50)
             (Text ''Detecting highlights with GPT-4...'')) (\<lambda>_.
     bind (external_value (detect_highlights ad)) (\<lambda>highlights.
     bind (update_job job_id Processing (start_progress + 60)
             (Text ''Resizing video to 9:16 vertical format...'')) (\<lambda>_.
     bind (resize_video ad TARGET_RESOLUTION resized_path) (\<lambda>_.
     bind (update_job job_id Processing (start_progress + 70)
             (Text ''Embedding subtitles into video...'')) (\<lambda>_.
     bind (external_value (generate_srt subtitles)) (\<lambda>srt_content.
     bind (external (srt_write ad)) (\<lambda>_.
     bind (write_file srt_path) (\<lambda>_.
     bind (external (add_subtitles ad)) (\<lambda>_.
     bind (write_file final_path) (\<lambda>_.
     bind (update_job job_id Processing (start_progress + 80)
             (Text ''Creating highlight reel...'')) (\<lambda>_.
     bind (create_highlight_video ad highlights highlight_path) (\<lambda>_.
     bind (update_job job_id Processing 95 (Text ''Finalizing results...'')) (\<lambda>_.
       (let md = \<lparr> md_job_id = job_id,
                    md_filename = filename,
                    md_highlights = highlights,
                    md_subtitles = subtitles,
                    md_num_highlights = length highlights,
                    md_num_subtitles = length subtitles,
                    md_processed_at = now ad \<rparr>
        in
     bind (external (metadata_write ad)) (\<lambda>_.
     bind (write_file (path_join job_output_dir ''metadata.json'')) (\<lambda>_.
     complete_job job_id job_output_dir md)))))))))))))))))))))))"

definition process_video_async ::
  "adapters \<Rightarrow> string \<Rightarrow> string \<Rightarrow> string \<Rightarrow> int \<Rightarrow> unit action" where
  "process_video_async ad job_id video_path filename start_progress w =
     (case process_video_async_try ad job_id video_path filename start_progress w of
        (Inr u, w') \<Rightarrow> (Inr (), w')
      | (Inl e, w') \<Rightarrow> fail_job job_id e w')"

definition process_url_async_try :: "adapters \<Rightarrow> string \<Rightarrow> string \<Rightarrow> unit action" where
  "process_url_async_try ad job_id url =
     bind (update_job job_id Processing 5 (Text ''Downloading video from URL...'')) (\<lambda>_.
       (let upload_path = path_join UPLOAD_DIR (job_id @ ''_video.mp4'')
        in
     bind (external (download ad)) (\<lambda>_.
     bind (write_file upload_path) (\<lambda>_.
     bind (update_job job_id Processing 15
             (Text ''Video downloaded, starting processing...'')) (\<lambda>_.
     process_video_async ad job_id upload_path ''video.mp4'' 15)))))"

definition process_url_async :: "adapters \<Rightarrow> string \<Rightarrow> string \<Rightarrow> unit action" where
  "process_url_async ad job_id url w =
     (case process_url_async_try ad job_id url w of
        (Inr u, w') \<Rightarrow> (Inr (), w')
      | (Inl e, w') \<Rightarrow> fail_job job_id e w')"

subsection \<open>The submission endpoints\<close>

text \<open>
  An upload is its file name and \<open>len(content)\<close>, the number of bytes read. The job id is
  the fresh \<open>uuid4\<close> string and \<open>timestamp\<close> is \<open>datetime.now().isoformat()\<close>; both are
  inputs of the model, as is whether \<open>background_tasks\<close> was given.
\<close>

record upload_file =
  filename :: string
  content_length :: nat

record submit_response =
  resp_job_id :: string
  resp_status :: string
  resp_message :: string

definition endswith :: "string \<Rightarrow> string \<Rightarrow> bool" where
  "endswith s suffix \<longleftrightarrow>
     length suffix \<le> length s \<and> drop (length s - length suffix) s = suffix"

definition startswith :: "string \<Rightarrow> string \<Rightarrow> bool" where
  "startswith s prefix \<longleftrightarrow> take (length prefix) s = prefix"

definition new_job :: "msg \<Rightarrow> string \<Rightarrow> job" where
  "new_job text timestamp =
     \<lparr> status = Processing, progress = Some 0, message = text,
       created_at = Some timestamp, output_dir = None, job_metadata = None \<rparr>"

text \<open>The dict \<open>{"status": "error", "message": str(e)}\<close>.\<close>

definition error_job :: "exc \<Rightarrow> job" where
  "error_job e =
     \<lparr> status = Error, progress = None, message = StrOf e,
       created_at = None, output_dir = None, job_metadata = None \<rparr>"

definition set_job :: "string \<Rightarrow> job \<Rightarrow> unit action" where
  "set_job job_id j w =
     (Inr (), w\<lparr> jobs := (jobs w)(job_id \<mapsto> j), log := log w @ [Write job_id j] \<rparr>)"

definition add_task :: "task \<Rightarrow> unit action" where
  "add_task t w = (Inr (), w\<lparr> tasks := tasks w @ [t] \<rparr>)"

definition process_video_try ::
  "string \<Rightarrow> upload_file \<Rightarrow> bool \<Rightarrow> string \<Rightarrow> submit_response action" where
  "process_video_try job_id file background_tasks timestamp =
     (if \<not> list_ex (endswith (filename file)) [''.mp4'', ''.avi'', ''.mov'', ''.mkv'']
      then raise (HTTPException 400 (Text ''Invalid video format''))
      else
        (let upload_path = path_join UPLOAD_DIR (job_id @ ''_'' @ filename file)
         in
      bind (write_file upload_path) (\<lambda>_.
        (let file_size_mb = real (content_length file) / (1024 * 1024)
         in if file_size_mb > real_of_int MAX_VIDEO_SIZE_MB
            then raise (HTTPException 413
                   (Text (''File too large (max '' @ str_int MAX_VIDEO_SIZE_MB @ ''MB)'')))
            else
      bind (set_job job_id
              (new_job (Text ''Uploaded successfully, starting processing...'') timestamp)) (\<lambda>_.
      bind (if background_tasks
            then add_task (VideoTask job_id upload_path (filename file))
            else return ()) (\<lambda>_.
      return \<lparr> resp_job_id = job_id, resp_status = ''processing'',
               resp_message = ''Video processing started'' \<rparr>))))))"

text \<open>
  \<open>process_video\<close> has the single handler \<open>except Exception as e\<close>, which also catches the
  \<open>HTTPException\<close>s raised in its own \<open>try\<close> block.
\<close>

definition process_video ::
  "string \<Rightarrow> upload_file \<Rightarrow> bool \<Rightarrow> string \<Rightarrow> submit_response action" where
  "process_video job_id file background_tasks timestamp w =
     (case process_video_try job_id file background_tasks timestamp w of
        (Inr r, w') \<Rightarrow> (Inr r, w')
      | (Inl e, w') \<Rightarrow>
          (Inl (HTTPException 500 (StrOf e)), snd (set_job job_id (error_job e) w')))"

definition process_video_url_try ::
  "string \<Rightarrow> string \<Rightarrow> bool \<Rightarrow> string \<Rightarrow> submit_response action" where
  "process_video_url_try job_id url background_tasks timestamp =
     (if \<not> list_ex (startswith url) [''http://'', ''https://'']
      then raise (HTTPException 400 (Text ''Invalid URL format''))
      else
      bind (set_job job_id (new_job (Text ''Downloading video from URL...'') timestamp)) (\<lambda>_.
      bind (if background_tasks then add_task (UrlTask job_id url) else return ()) (\<lambda>_.
      return \<lparr> resp_job_id = job_id, resp_status = ''processing'',
               resp_message = ''Video download and processing started'' \<rparr>)))"

text \<open>
  \<open>process_video_url\<close> has \<open>except HTTPException: raise\<close> before
  \<open>except Exception as e\<close>.
\<close>

definition process_video_url ::
  "string \<Rightarrow> string \<Rightarrow> bool \<Rightarrow> string \<Rightarrow> submit_response action" where
  "process_video_url job_id url background_tasks timestamp w =
     (case process_video_url_try job_id url background_tasks timestamp w of
        (Inr r, w') \<Rightarrow> (Inr r, w')
      | (Inl (HTTPException code detail), w') \<Rightarrow> (Inl (HTTPException code detail), w')
      | (Inl e, w') \<Rightarrow>
          (Inl (HTTPException 500 (StrOf e)), snd (set_job job_id (error_job e) w')))"

subsection \<open>download\_file\<close>

record file_response =
  fr_path :: string
  fr_media_type :: string
  fr_filename :: string

definition file_mapping :: "(string \<times> string) list" where
  "file_mapping =
     [(''final'', ''final_with_subtitles.mp4''),
      (''highlights'', ''highlights.mp4''),
      (''subtitles'', ''subtitles.srt''),
      (''metadata'', ''metadata.json'')]"

definition media_types :: "(string \<times> string) list" where
  "media_types =
     [(''final'', ''video/mp4''),
      (''highlights'', ''video/mp4''),
      (''subtitles'', ''text/plain''),
      (''metadata'', ''application/json'')]"

definition download_file :: "string \<Rightarrow> string \<Rightarrow> world \<Rightarrow> exc + file_response" where
  "download_file job_id file_type w =
     (if jobs w job_id = None then Inl (HTTPException 404 (Text ''Job not found''))
      else
        (let job_output_dir = path_join OUTPUT_DIR job_id
         in case (map_of file_mapping file_type, map_of media_types file_type) of
              (Some name, Some media_type) \<Rightarrow>
                (let file_path = path_join job_output_dir name
                 in if file_path \<notin> files w
                    then Inl (HTTPException 404 (Text ''File not found''))
                    else Inr \<lparr> fr_path = file_path, fr_media_type = media_type,
                              fr_filename = name \<rparr>)
            | _ \<Rightarrow> Inl (HTTPException 400 (Text ''Invalid file type''))))"

subsection \<open>Observations on a run\<close>

text \<open>
  The snapshots of one job published between two states, and the properties of such a
  sequence that the theorems below are about: every progress value is present and at
  most 100, the progress values never decrease, and a terminal status occurs at most
  once, at the end.
\<close>

definition snapshots :: "string \<Rightarrow> world \<Rightarrow> world \<Rightarrow> job list" where
  "snapshots job_id w w' =
     map snd (filter (\<lambda>p. fst p = job_id) (drop (length (published w)) (published w')))"

definition terminal :: "job \<Rightarrow> bool" where
  "terminal j \<longleftrightarrow> status j = Completed \<or> status j = Error"

fun progress_bounded :: "job list \<Rightarrow> bool" where
  "progress_bounded [] = True"
| "progress_bounded (j # js) =
     (case progress j of None \<Rightarrow> False | Some p \<Rightarrow> p \<le> 100 \<and> progress_bounded js)"

fun progress_monotone :: "int \<Rightarrow> job list \<Rightarrow> bool" where
  "progress_monotone p [] = True"
| "progress_monotone p (j # js) =
     (case progress j of None \<Rightarrow> False | Some q \<Rightarrow> p \<le> q \<and> progress_monotone q js)"

fun completed_at_100 :: "job list \<Rightarrow> bool" where
  "completed_at_100 [] = True"
| "completed_at_100 (j # js) =
     ((if status j = Completed then progress j = Some 100 else True) \<and> completed_at_100 js)"

fun terminal_only_last :: "job list \<Rightarrow> bool" where
  "terminal_only_last [] = True"
| "terminal_only_last [j] = True"
| "terminal_only_last (j # js) = (\<not> terminal j \<and> terminal_only_last js)"

text \<open>
  The events of one job between two states. \<open>terminal_block_last\<close>: up to the first
  assignment that makes the status terminal every event leaves the job non-terminal;
  after it come only assignments that keep that status, and then one publish, which is
  the last event.
\<close>

definition events :: "string \<Rightarrow> world \<Rightarrow> world \<Rightarrow> event list" where
  "events job_id w w' = filter (\<lambda>e. event_id e = job_id) (drop (length (log w)) (log w'))"

fun block_end :: "job_status \<Rightarrow> event list \<Rightarrow> bool" where
  "block_end s [] = False"
| "block_end s [Publish job_id j] = (status j = s)"
| "block_end s (Publish job_id j # es) = False"
| "block_end s (Write job_id j # es) = (status j = s \<and> block_end s es)"

fun terminal_block_last :: "event list \<Rightarrow> bool" where
  "terminal_block_last [] = False"
| "terminal_block_last (Publish job_id j # es) = (\<not> terminal j \<and> terminal_block_last es)"
| "terminal_block_last (Write job_id j # es) =
     (if terminal j then block_end (status j) es else terminal_block_last es)"


text \<open>The messages one call of \<open>broadcast\<close> delivers: to every open connection of the job, in order.\<close>

definition delivered :: "string \<Rightarrow> job \<Rightarrow> world \<Rightarrow> (nat \<times> job) list" where
  "delivered job_id m w =
     (case active_connections w job_id of
        None \<Rightarrow> []
      | Some connections \<Rightarrow> map (\<lambda>c. (c, m)) (filter (\<lambda>c. c \<notin> closed w) connections))"

subsection \<open>Reasoning about actions\<close>

text \<open>
  \<open>valid P a Q E\<close>: started in a state satisfying \<open>P\<close>, the action \<open>a\<close> either returns
  \<open>x\<close> in a state satisfying \<open>Q x\<close> or raises in a state satisfying \<open>E\<close>.
\<close>

definition valid ::
  "(world \<Rightarrow> bool) \<Rightarrow> 'a action \<Rightarrow> ('a \<Rightarrow> world \<Rightarrow> bool) \<Rightarrow> (world \<Rightarrow> bool) \<Rightarrow> bool" where
  "valid P a Q E \<longleftrightarrow>
     (\<forall>w. P w \<longrightarrow> (case a w of (Inl e, w') \<Rightarrow> E w' | (Inr x, w') \<Rightarrow> Q x w'))"

text \<open>
  The snapshots published so far for a job that is still running, seen from the state
  \<open>w0\<close> in which its task started with progress at least \<open>p0\<close>: all are \<open>Processing\<close>,
  their progress values are bounded, never decrease and are at most the current one \<open>q\<close>.
\<close>

definition trace_ok :: "int \<Rightarrow> int \<Rightarrow> job list \<Rightarrow> bool" where
  "trace_ok p0 q js \<longleftrightarrow>
     p0 \<le> q \<and> q \<le> 100 \<and> progress_bounded js \<and> progress_monotone p0 js
     \<and> list_all (\<lambda>s. status s = Processing) js
     \<and> list_all (\<lambda>s. case progress s of None \<Rightarrow> False | Some p \<Rightarrow> p \<le> q) js"

text \<open>
  The job is running: the events since \<open>w0\<close> are \<open>es\<close>, none of them made the job
  terminal, and the snapshots among them are in order.
\<close>

definition running :: "string \<Rightarrow> world \<Rightarrow> int \<Rightarrow> int \<Rightarrow> world \<Rightarrow> bool" where
  "running job_id w0 p0 k w \<longleftrightarrow>
     (\<exists>j q es. log w = log w0 @ es
            \<and> jobs w job_id = Some j \<and> status j = Processing \<and> progress j = Some q \<and> q \<le> k
            \<and> list_all (\<lambda>e. \<not> terminal (event_job e)) (filter (\<lambda>e. event_id e = job_id) es)
            \<and> trace_ok p0 q (map snd (filter (\<lambda>p. fst p = job_id) (publishes es))))"

text \<open>The job has reached a terminal state, and its whole trace is as the claims require.\<close>

definition finished :: "string \<Rightarrow> world \<Rightarrow> int \<Rightarrow> world \<Rightarrow> bool" where
  "finished job_id w0 p0 w \<longleftrightarrow>
     (let js = snapshots job_id w0 w
      in js \<noteq> [] \<and> terminal (last js) \<and> jobs w job_id = Some (last js)
         \<and> progress_bounded js \<and> progress_monotone p0 js
         \<and> completed_at_100 js \<and> terminal_only_last js
         \<and> terminal_block_last (events job_id w0 w))"

subsection \<open>Example inputs\<close>

text \<open>
  The state of a freshly started process (\<open>jobs = {}\<close>, \<open>active_connections = {}\<close>), the
  state after one accepted upload, a registry with two observers of which the first has
  disconnected, and adapters that all succeed on a ten-second video with the transcript
  \<open>[{0,2,"hi"},{3,5,"key moment"},{6,10,"bye"}]\<close> and a given answer of the highlight
  model.
\<close>

definition initial_world :: world where
  "initial_world =
     \<lparr> jobs = Map.empty, active_connections = Map.empty, closed = {}, received = [],
       files = {}, tasks = [], log = [] \<rparr>"

definition submitted_world :: world where
  "submitted_world =
     snd (process_video ''job-1'' \<lparr> filename = ''clip.mp4'', content_length = 1048576 \<rparr>
            True ''2024-01-01T00:00:00'' initial_world)"

definition two_observers :: world where
  "two_observers =
     initial_world\<lparr> active_connections := [''job-1'' \<mapsto> [1, 2]], closed := {1} \<rparr>"

definition mock_transcript :: "subtitle list" where
  "mock_transcript =
     [\<lparr> sub_id = 0, sub_start = 0, sub_end = 2, sub_text = ''hi'', sub_confidence = Some 0 \<rparr>,
      \<lparr> sub_id = 1, sub_start = 3, sub_end = 5, sub_text = ''key moment'',
        sub_confidence = Some 0 \<rparr>,
      \<lparr> sub_id = 2, sub_start = 6, sub_end = 10, sub_text = ''bye'', sub_confidence = Some 0 \<rparr>]"

definition mock_adapters :: "highlight list \<Rightarrow> adapters" where
  "mock_adapters highlights =
     \<lparr> makedirs = None, download = None, extract_audio = None,
       extract_subtitles = Inr mock_transcript, detect_highlights = Inr highlights,
       video_size = Inr (1920, 1080), resize_write = None, srt_write = None,
       add_subtitles = None, video_duration = Inr 10, highlight_write = None,
       metadata_write = None, now = ''2024-01-01T00:05:00'' \<rparr>"

section \<open>Properties of the subtitle formatter\<close>

subsection \<open>What the loops of filter\_subtitles\_for\_highlights compute\<close>

lemma inner_loop_eq:
  "inner_loop h offset subs (filtered, i) =
     (filtered @ number_from h offset i (filter (overlaps h) subs),
      i + int (length (filter (overlaps h) subs)))"
  by (induction subs arbitrary: filtered i) simp_all

lemma replicate_numeral: "replicate (numeral k) x = x # replicate (pred_numeral k) x"
  by (simp add: numeral_eq_Suc)

lemmas float_defs = fsub_def double_round_def ulp_def binade.simps round_half_even_def

lemma fsub_half: "fsub (3 / 2) 1 = 1 / 2"
  by (simp add: float_defs)

lemma fsub_reel: "fsub 10 0 = 10" "fsub 30 20 = 10" "fsub 5 3 = 2"
  by (simp_all add: float_defs)

lemma fsub_boundary:
  "fsub (2296835809958953 / 4503599627370496) (5764607523034235 / 576460752303423488) = 1 / 2"
  by (simp add: float_defs)

text \<open>
  C1, at the failing input. Subtitles \<open>a = [2, 4)\<close> and \<open>b = [22, 24)\<close>, highlight
  windows \<open>[0, 10)\<close> and \<open>[20, 30)\<close> of a 30-second video. The offset of the second
  window is taken from the end of the last kept subtitle, 4, so \<open>b\<close> is retimed to
  \<open>[6, 8)\<close>. The reel that \<open>create_highlight_video\<close> builds from the same windows is
  the clips \<open>(0, 10)\<close> and \<open>(20, 30)\<close> one after the other: the second window starts at
  second 10 of the reel and \<open>b\<close> is played at \<open>[12, 14)\<close>.
\<close>

theorem retime_offset_desync:
  "filter_subtitles_for_highlights
     [\<lparr> sub_id = 0, sub_start = 2, sub_end = 4, sub_text = ''a'', sub_confidence = Some 0 \<rparr>,
      \<lparr> sub_id = 1, sub_start = 22, sub_end = 24, sub_text = ''b'', sub_confidence = Some 0 \<rparr>]
     [\<lparr> hl_start = 0, hl_end = 10, hl_reason = ''r'', hl_score = 90 \<rparr>,
      \<lparr> hl_start = 20, hl_end = 30, hl_reason = ''s'', hl_score = 80 \<rparr>]
   = [\<lparr> sub_id = 0, sub_start = 2, sub_end = 4, sub_text = ''a'', sub_confidence = Some 0 \<rparr>,
      \<lparr> sub_id = 1, sub_start = 6, sub_end = 8, sub_text = ''b'', sub_confidence = Some 0 \<rparr>]
   \<and> clips_loop 30
       [\<lparr> hl_start = 0, hl_end = 10, hl_reason = ''r'', hl_score = 90 \<rparr>,
        \<lparr> hl_start = 20, hl_end = 30, hl_reason = ''s'', hl_score = 80 \<rparr>] []
     = [(0, 10), (20, 30)]"
  by (simp add: filter_subtitles_for_highlights_def offset_for_def overlaps_def retimed_def
        Let_def fsub_reel)

subsection \<open>A single window over the whole video\<close>

lemma overlaps_full:
  "in_video D s \<Longrightarrow> overlaps \<lparr> hl_start = 0, hl_end = D, hl_reason = r, hl_score = sc \<rparr> s"
  by (simp add: in_video_def overlaps_def)

lemma filter_full:
  "list_all (in_video D) subs \<Longrightarrow>
   filter (overlaps \<lparr> hl_start = 0, hl_end = D, hl_reason = r, hl_score = sc \<rparr>) subs = subs"
  by (induction subs) (simp_all add: overlaps_full)

lemma retimed_full:
  "in_video D s \<Longrightarrow>
   retimed \<lparr> hl_start = 0, hl_end = D, hl_reason = r, hl_score = sc \<rparr> 0 (int n) s
     = renumbered (n, s)"
  by (simp add: in_video_def retimed_def renumbered_def)

lemma number_from_full:
  "list_all (in_video D) subs \<Longrightarrow>
   number_from \<lparr> hl_start = 0, hl_end = D, hl_reason = r, hl_score = sc \<rparr> 0 (int n) subs
     = map renumbered (enumerate n subs)"
proof (induction subs arbitrary: n)
  case Nil
  then show ?case by simp
next
  case (Cons s ss)
  then have "in_video D s" and rest: "list_all (in_video D) ss" by simp_all
  moreover have "int n + 1 = int (Suc n)" by simp
  ultimately show ?case
    using Cons.IH[OF rest, of "Suc n"]
    by (simp only: number_from.simps enumerate_simps list.map retimed_full)
qed

lemma renumbered_id:
  "map sub_id subs = map int [n..<n + length subs] \<Longrightarrow>
   list_all (\<lambda>s. sub_confidence s \<noteq> None) subs \<Longrightarrow>
   map renumbered (enumerate n subs) = subs"
proof (induction subs arbitrary: n)
  case Nil
  then show ?case by simp
next
  case (Cons s ss)
  from Cons.prems(1) have hd: "sub_id s = int n"
    and tl: "map sub_id ss = map int [Suc n..<Suc n + length ss]"
    by (simp_all add: upt_conv_Cons del: upt_Suc)
  from Cons.prems(2) obtain c where c: "sub_confidence s = Some c"
    and rest: "list_all (\<lambda>s. sub_confidence s \<noteq> None) ss"
    by auto
  have "renumbered (n, s) = s" using hd c by (simp add: renumbered_def)
  then show ?case using Cons.IH[OF tl rest] by simp
qed

lemma full_window_renumbers:
  assumes "list_all (in_video D) subs"
  shows "filter_subtitles_for_highlights subs
           [\<lparr> hl_start = 0, hl_end = D, hl_reason = r, hl_score = sc \<rparr>]
         = map renumbered (enumerate 0 subs)"
  using number_from_full[OF assms, of r sc 0]
  by (simp add: filter_subtitles_for_highlights_def inner_loop_eq offset_for_def
        filter_full[OF assms])

text \<open>
  C9 (amended). For segments within \<open>[0, D]\<close> with \<open>end > start\<close> and the single window
  \<open>[0, D)\<close>, the result has the segments in order with the same start, end and text; the
  ids are renumbered \<open>0, 1, 2, ...\<close> and a missing confidence becomes 0. So the result is
  the input itself when the input ids are already \<open>0 .. n-1\<close> and every confidence is
  present.
\<close>

theorem retime_full_window:
  assumes "list_all (in_video D) subtitles"
  shows "filter_subtitles_for_highlights subtitles
           [\<lparr> hl_start = 0, hl_end = D, hl_reason = r, hl_score = sc \<rparr>]
         = map renumbered (enumerate 0 subtitles)
       \<and> (map sub_id subtitles = map int [0..<length subtitles]
            \<and> list_all (\<lambda>s. sub_confidence s \<noteq> None) subtitles
          \<longrightarrow> filter_subtitles_for_highlights subtitles
                [\<lparr> hl_start = 0, hl_end = D, hl_reason = r, hl_score = sc \<rparr>] = subtitles)"
  using full_window_renumbers[OF assms, of r sc] renumbered_id[of subtitles 0] by simp

theorem retime_full_window_witness:
  "list_all (in_video 10) mock_transcript
   \<and> map sub_id mock_transcript = map int [0..<length mock_transcript]
   \<and> list_all (\<lambda>s. sub_confidence s \<noteq> None) mock_transcript
   \<and> filter_subtitles_for_highlights mock_transcript
        [\<lparr> hl_start = 0, hl_end = 10, hl_reason = ''all'', hl_score = 50 \<rparr>] = mock_transcript"
proof -
  have 1: "list_all (in_video 10) mock_transcript"
    by (simp add: mock_transcript_def in_video_def)
  have 2: "map sub_id mock_transcript = map int [0..<length mock_transcript]"
    by (simp add: mock_transcript_def upt_rec)
  have 3: "list_all (\<lambda>s. sub_confidence s \<noteq> None) mock_transcript"
    by (simp add: mock_transcript_def)
  have "filter_subtitles_for_highlights mock_transcript
          [\<lparr> hl_start = 0, hl_end = 10, hl_reason = ''all'', hl_score = 50 \<rparr>] = mock_transcript"
    using retime_full_window[OF 1, of "''all''" 50] 2 3 by blast
  with 1 2 3 show ?thesis by blast
qed

text \<open>
  Counterexample to C9 as stated: a segment within the video whose id is 1 comes back
  with id 0.
\<close>

theorem retime_ids_counterexample:
  "list_all (in_video 10)
     [\<lparr> sub_id = 1, sub_start = 0, sub_end = 2, sub_text = ''hi'', sub_confidence = Some 0 \<rparr>]
   \<and> filter_subtitles_for_highlights
       [\<lparr> sub_id = 1, sub_start = 0, sub_end = 2, sub_text = ''hi'', sub_confidence = Some 0 \<rparr>]
       [\<lparr> hl_start = 0, hl_end = 10, hl_reason = ''all'', hl_score = 50 \<rparr>]
     = [\<lparr> sub_id = 0, sub_start = 0, sub_end = 2, sub_text = ''hi'', sub_confidence = Some 0 \<rparr>]"
  by (simp add: in_video_def filter_subtitles_for_highlights_def offset_for_def overlaps_def
        retimed_def)

subsection \<open>format\_time and generate\_srt\<close>

lemmas format_defs = format_time_def timedelta_seconds_def round_half_even_def format_d_def
  zero_pad_def str_int_def str_nat.simps replicate_numeral

text \<open>
  C7, at the failing input. A segment from 90000 s (25 hours) to 90001.25 s is rendered
  with the hour field 01: \<open>format_time\<close> reads \<open>td.seconds\<close>, the seconds within the
  day, and drops \<open>td.days\<close>. The rest of the block has the form the claim states.
\<close>

theorem format_time_wraps_hours:
  "format_time 90000 = Inr ''01:00:00,000''
   \<and> generate_srt
       [\<lparr> sub_id = 0, sub_start = 90000, sub_end = 90001.25, sub_text = ''late'',
          sub_confidence = None \<rparr>]
     = Inr (''1'' @ newline @ ''01:00:00,000 --> 01:00:01,250'' @ newline
            @ ''late'' @ newline @ newline)"
  by (simp add: generate_srt_def format_defs)

lemma generate_srt_mock:
  "generate_srt mock_transcript = Inr
     (''1'' @ newline @ ''00:00:00,000 --> 00:00:02,000'' @ newline @ ''hi'' @ newline @ newline
      @ ''2'' @ newline @ ''00:00:03,000 --> 00:00:05,000'' @ newline @ ''key moment''
      @ newline @ newline
      @ ''3'' @ newline @ ''00:00:06,000 --> 00:00:10,000'' @ newline @ ''bye''
      @ newline @ newline)"
  by (simp add: generate_srt_def mock_transcript_def format_defs)

section \<open>Properties of the video processor\<close>

text \<open>
  C2, at the failing input. With the configured \<open>TARGET_RESOLUTION = (1080, 1920)\<close>,
  \<open>resize_video\<close> unpacks the pair as \<open>target_h, target_w\<close>: a 1920 by 1080 video is
  scaled by 1 and written 1920 wide and 1080 tall, not 1080 wide and 1920 tall.
\<close>

theorem resize_video_landscape_output:
  "resize_geometry TARGET_RESOLUTION (1920, 1080)
     = Inr \<lparr> new_w = 1920, new_h = 1080, crop_x1 = 0, crop_y1 = 0,
             crop_x2 = 1920, crop_y2 = 1080 \<rparr>
   \<and> output_size \<lparr> new_w = 1920, new_h = 1080, crop_x1 = 0, crop_y1 = 0,
                    crop_x2 = 1920, crop_y2 = 1080 \<rparr> = (1920, 1080)"
  by (simp add: resize_geometry_def TARGET_RESOLUTION_def output_size_def py_int_def)

text \<open>
  For every input size the written video has the configured pair swapped: its width is
  the second component and its height the first.
\<close>

lemma resize_output_size:
  "resize_geometry (a, b) sz = Inr p \<Longrightarrow> output_size p = (b, a)"
  by (cases sz) (auto simp: resize_geometry_def output_size_def Let_def split: if_splits)

lemma clips_loop_eq:
  "clips_loop duration hs clips =
     clips @ map (clamped duration)
               (filter (\<lambda>h. 1 / 2 < float_span (clamped duration h)) hs)"
  by (induction hs arbitrary: clips) (simp_all add: clamped_def float_span_def Let_def)

text \<open>
  C8 (amended). The clips of the highlight reel are the clamped ranges
  \<open>(max 0 start, min duration end)\<close> of exactly those candidates for which the float
  difference \<open>end - start\<close> of the clamped range, the exact difference rounded to the
  nearest double, is strictly greater than 0.5, in candidate order.
\<close>

theorem highlight_clips_strict:
  "clips_loop duration highlights [] =
     map (clamped duration)
       (filter (\<lambda>h. 1 / 2 < float_span (clamped duration h)) highlights)"
  by (simp add: clips_loop_eq)

text \<open>
  Counterexample to C8 as stated: a candidate whose clamped range is exactly 0.5 s long
  is dropped.
\<close>

theorem half_second_clip_counterexample:
  "span (clamped 10 \<lparr> hl_start = 1, hl_end = 3 / 2, hl_reason = ''r'', hl_score = 90 \<rparr>) = 1 / 2
   \<and> clips_loop 10 [\<lparr> hl_start = 1, hl_end = 3 / 2, hl_reason = ''r'', hl_score = 90 \<rparr>] [] = []"
  by (simp add: span_def clamped_def Let_def fsub_half)

text \<open>
  The doubles nearest to 0.01 and 0.51 are \<open>5764607523034235 / 2^59\<close> and
  \<open>2296835809958953 / 2^52\<close>. Their exact difference is above 0.5, the float difference is
  0.5, and the clip is dropped.
\<close>

lemma rounded_boundary_clip_dropped:
  "1 / 2 < span (clamped 10
       \<lparr> hl_start = 5764607523034235 / 576460752303423488,
         hl_end = 2296835809958953 / 4503599627370496, hl_reason = ''r'', hl_score = 90 \<rparr>)
   \<and> float_span (clamped 10
       \<lparr> hl_start = 5764607523034235 / 576460752303423488,
         hl_end = 2296835809958953 / 4503599627370496, hl_reason = ''r'', hl_score = 90 \<rparr>)
       = 1 / 2
   \<and> clips_loop 10
       [\<lparr> hl_start = 5764607523034235 / 576460752303423488,
          hl_end = 2296835809958953 / 4503599627370496, hl_reason = ''r'', hl_score = 90 \<rparr>] []
       = []"
  by (simp add: span_def float_span_def clamped_def Let_def fsub_boundary)

section \<open>Properties of the broadcaster and the orchestrator\<close>

subsection \<open>What a broadcast and the writing blocks do\<close>

lemma broadcast_loop_eq:
  "broadcast_loop cs m w =
     w\<lparr> received := received w @ map (\<lambda>c. (c, m)) (filter (\<lambda>c. c \<notin> closed w) cs) \<rparr>"
  by (induction cs arbitrary: w) (simp_all add: send_json_def)

lemma broadcast_eq:
  "broadcast job_id m w =
     (Inr (), w\<lparr> received := received w @ delivered job_id m w,
                 log := log w @ [Publish job_id m] \<rparr>)"
  by (simp add: broadcast_def delivered_def broadcast_loop_eq Let_def split: option.splits)

lemma delivered_update [simp]:
  "delivered job_id m (w\<lparr> jobs := a \<rparr>) = delivered job_id m w"
  "delivered job_id m (w\<lparr> log := b \<rparr>) = delivered job_id m w"
  "delivered job_id m (w\<lparr> files := c \<rparr>) = delivered job_id m w"
  "delivered job_id m (w\<lparr> received := d \<rparr>) = delivered job_id m w"
  by (simp_all add: delivered_def split: option.splits)

lemma update_job_unfold:
  "update_job job_id st p t w =
     (case jobs w job_id of
        None \<Rightarrow> (Inl (KeyError job_id), w)
      | Some j \<Rightarrow>
          (Inr (),
           w\<lparr> jobs := (jobs w)(job_id \<mapsto>
                        j\<lparr> status := st, progress := Some (min p 100), message := t \<rparr>),
              received := received w @ delivered job_id
                        (j\<lparr> status := st, progress := Some (min p 100), message := t \<rparr>) w,
              log := log w @
                [Write job_id (j\<lparr> status := st \<rparr>),
                 Write job_id (j\<lparr> status := st, progress := Some (min p 100) \<rparr>),
                 Write job_id (j\<lparr> status := st, progress := Some (min p 100), message := t \<rparr>),
                 Publish job_id
                   (j\<lparr> status := st, progress := Some (min p 100), message := t \<rparr>)] \<rparr>))"
  by (simp add: update_job_def write_key_def publish_job_def bind_def broadcast_eq
        split: option.splits)

lemma complete_job_unfold:
  "complete_job job_id d md w =
     (case jobs w job_id of
        None \<Rightarrow> (Inl (KeyError job_id), w)
      | Some j \<Rightarrow>
          (Inr (),
           w\<lparr> jobs := (jobs w)(job_id \<mapsto>
                        j\<lparr> status := Completed, progress := Some 100,
                           message := Text ''Processing completed successfully!'',
                           output_dir := Some d, job_metadata := Some md \<rparr>),
              received := received w @ delivered job_id
                        (j\<lparr> status := Completed, progress := Some 100,
                           message := Text ''Processing completed successfully!'',
                           output_dir := Some d, job_metadata := Some md \<rparr>) w,
              log := log w @
                [Write job_id (j\<lparr> status := Completed \<rparr>),
                 Write job_id (j\<lparr> status := Completed, progress := Some 100 \<rparr>),
                 Write job_id (j\<lparr> status := Completed, progress := Some 100,
                                  message := Text ''Processing completed successfully!'' \<rparr>),
                 Write job_id (j\<lparr> status := Completed, progress := Some 100,
                                  message := Text ''Processing completed successfully!'',
                                  output_dir := Some d \<rparr>),
                 Write job_id (j\<lparr> status := Completed, progress := Some 100,
                                  message := Text ''Processing completed successfully!'',
                                  output_dir := Some d, job_metadata := Some md \<rparr>),
                 Publish job_id (j\<lparr> status := Completed, progress := Some 100,
                                  message := Text ''Processing completed successfully!'',
                                  output_dir := Some d, job_metadata := Some md \<rparr>)] \<rparr>))"
  by (simp add: complete_job_def write_key_def publish_job_def bind_def broadcast_eq
        split: option.splits)

lemma fail_job_unfold:
  "fail_job job_id e w =
     (case jobs w job_id of
        None \<Rightarrow> (Inl (KeyError job_id), w)
      | Some j \<Rightarrow>
          (Inr (),
           w\<lparr> jobs := (jobs w)(job_id \<mapsto> j\<lparr> status := Error, message := StrOf e \<rparr>),
              received := received w @ delivered job_id
                        (j\<lparr> status := Error, message := StrOf e \<rparr>) w,
              log := log w @
                [Write job_id (j\<lparr> status := Error \<rparr>),
                 Write job_id (j\<lparr> status := Error, message := StrOf e \<rparr>),
                 Publish job_id (j\<lparr> status := Error, message := StrOf e \<rparr>)] \<rparr>))"
  by (simp add: fail_job_def write_key_def publish_job_def bind_def broadcast_eq
        split: option.splits)

subsection \<open>Rules for actions\<close>

lemma valid_bind:
  assumes "valid P m Q E" and "\<And>x. valid (Q x) (f x) R E"
  shows "valid P (bind m f) R E"
  unfolding valid_def bind_def
proof (intro allI impI)
  fix w assume "P w"
  with assms(1) have 1: "case m w of (Inl e, w') \<Rightarrow> E w' | (Inr x, w') \<Rightarrow> Q x w'"
    by (simp add: valid_def)
  show "case (case m w of (Inl e, w') \<Rightarrow> (Inl e, w') | (Inr x, w') \<Rightarrow> f x w') of
          (Inl e, w') \<Rightarrow> E w' | (Inr x, w') \<Rightarrow> R x w'"
  proof (cases "m w")
    case (Pair r w')
    show ?thesis
    proof (cases r)
      case (Inl e)
      with Pair 1 show ?thesis by simp
    next
      case (Inr x)
      with Pair 1 have "Q x w'" by simp
      with assms(2)[of x] have "case f x w' of (Inl e, w'') \<Rightarrow> E w'' | (Inr y, w'') \<Rightarrow> R y w''"
        by (simp add: valid_def)
      with Pair Inr show ?thesis by simp
    qed
  qed
qed

lemma valid_return: "(\<And>w. P w \<Longrightarrow> Q x w) \<Longrightarrow> valid P (return x) Q E"
  by (simp add: valid_def return_def)

lemma valid_external: "(\<And>w. P w \<Longrightarrow> E w) \<Longrightarrow> valid P (external r) (\<lambda>_. P) E"
  by (cases r) (simp_all add: external_def valid_def return_def raise_def)

lemma valid_external_value: "(\<And>w. P w \<Longrightarrow> E w) \<Longrightarrow> valid P (external_value r) (\<lambda>_. P) E"
  by (cases r) (simp_all add: external_value_def valid_def return_def raise_def)

subsection \<open>Traces of published snapshots\<close>

lemma progress_bounded_snoc:
  "progress_bounded (js @ [j]) \<longleftrightarrow>
     progress_bounded js \<and> (case progress j of None \<Rightarrow> False | Some p \<Rightarrow> p \<le> 100)"
  by (induction js) (auto split: option.splits)

lemma progress_monotone_snoc:
  "progress_monotone p js \<Longrightarrow>
   list_all (\<lambda>s. case progress s of None \<Rightarrow> False | Some r \<Rightarrow> r \<le> q) js \<Longrightarrow>
   p \<le> q \<Longrightarrow> progress j = Some q \<Longrightarrow> progress_monotone p (js @ [j])"
  by (induction js arbitrary: p) (auto split: option.splits)

lemma completed_at_100_snoc:
  "completed_at_100 (js @ [j]) \<longleftrightarrow>
     completed_at_100 js \<and> (status j = Completed \<longrightarrow> progress j = Some 100)"
  by (induction js) auto

lemma completed_at_100_processing:
  "list_all (\<lambda>s. status s = Processing) js \<Longrightarrow> completed_at_100 js"
  by (induction js) auto

lemma terminal_only_last_snoc:
  "list_all (\<lambda>s. status s = Processing) js \<Longrightarrow> terminal_only_last (js @ [j])"
  by (induction js rule: terminal_only_last.induct) (auto simp: terminal_def)

lemma list_all_le_mono:
  "list_all (\<lambda>s. case progress s of None \<Rightarrow> False | Some r \<Rightarrow> r \<le> q) js \<Longrightarrow> q \<le> q' \<Longrightarrow>
   list_all (\<lambda>s. case progress s of None \<Rightarrow> False | Some r \<Rightarrow> r \<le> q') js"
  by (induction js) (auto split: option.splits)

lemma trace_ok_snoc:
  assumes "trace_ok p0 q js" "q \<le> q'" "q' \<le> 100" "progress j = Some q'" "status j = Processing"
  shows "trace_ok p0 q' (js @ [j])"
  using assms
  by (auto simp: trace_ok_def progress_bounded_snoc intro: progress_monotone_snoc list_all_le_mono)

lemma publishes_append [simp]: "publishes (xs @ ys) = publishes xs @ publishes ys"
  by (induction xs rule: publishes.induct) simp_all

lemma snapshots_log:
  "log w' = log w0 @ es \<Longrightarrow>
   snapshots job_id w0 w' = map snd (filter (\<lambda>p. fst p = job_id) (publishes es))"
  by (simp add: snapshots_def published_def)

lemma events_log:
  "log w' = log w0 @ es \<Longrightarrow> events job_id w0 w' = filter (\<lambda>e. event_id e = job_id) es"
  by (simp add: events_def)

lemma terminal_block_last_append:
  "list_all (\<lambda>e. \<not> terminal (event_job e)) pre \<Longrightarrow> terminal_block_last blk \<Longrightarrow>
   terminal_block_last (pre @ blk)"
  by (induction pre rule: terminal_block_last.induct) simp_all

subsection \<open>The steps of the pipeline keep the trace in order\<close>

lemma running_mono: "running job_id w0 p0 k w \<Longrightarrow> k \<le> k' \<Longrightarrow> running job_id w0 p0 k' w"
  by (fastforce simp: running_def)

lemma running_start:
  assumes "jobs w job_id = Some j" "status j = Processing" "progress j = Some p" "p \<le> 100"
  shows "running job_id w p p w"
  using assms by (simp add: running_def trace_ok_def)

lemma valid_update_job:
  assumes "k \<le> p" "p \<le> 100"
  shows "valid (running job_id w0 p0 k) (update_job job_id Processing p t)
           (\<lambda>_. running job_id w0 p0 p) E"
  unfolding valid_def
proof (intro allI impI)
  fix w assume "running job_id w0 p0 k w"
  then obtain j q es where lg: "log w = log w0 @ es"
    and j: "jobs w job_id = Some j" "progress j = Some q" "q \<le> k"
    and nt: "list_all (\<lambda>e. \<not> terminal (event_job e)) (filter (\<lambda>e. event_id e = job_id) es)"
    and tr: "trace_ok p0 q (map snd (filter (\<lambda>p. fst p = job_id) (publishes es)))"
    by (auto simp: running_def)
  define j' where "j' = j\<lparr> status := Processing, progress := Some (min p 100), message := t \<rparr>"
  define blk where "blk =
    [Write job_id (j\<lparr> status := Processing \<rparr>),
     Write job_id (j\<lparr> status := Processing, progress := Some (min p 100) \<rparr>),
     Write job_id j', Publish job_id j']"
  define w' where "w' = snd (update_job job_id Processing p t w)"
  have res: "update_job job_id Processing p t w = (Inr (), w')"
    and lg': "log w' = log w @ blk"
    and job: "jobs w' job_id = Some j'"
    using j(1) by (simp_all add: w'_def j'_def blk_def update_job_unfold)
  have pj: "progress j' = Some p" "status j' = Processing"
    using assms by (simp_all add: j'_def)
  have 1: "trace_ok p0 p (map snd (filter (\<lambda>p. fst p = job_id) (publishes (es @ blk))))"
    using trace_ok_snoc[OF tr _ assms(2) pj] j(3) assms(1) by (simp add: blk_def)
  have 2: "list_all (\<lambda>e. \<not> terminal (event_job e))
             (filter (\<lambda>e. event_id e = job_id) (es @ blk))"
    using nt by (simp add: blk_def terminal_def j'_def)
  have 3: "log w' = log w0 @ (es @ blk)"
    using lg lg' by simp
  have "running job_id w0 p0 p w'"
    unfolding running_def
    using 1 2 3 job pj by blast
  with res show "case update_job job_id Processing p t w of
                   (Inl e, w') \<Rightarrow> E w' | (Inr x, w') \<Rightarrow> running job_id w0 p0 p w'"
    by simp
qed

lemma valid_write_file:
  "valid (running job_id w0 p0 k) (write_file path) (\<lambda>_. running job_id w0 p0 k) E"
  by (simp add: valid_def write_file_def running_def)

lemma valid_resize_video:
  assumes "\<And>w. running job_id w0 p0 k w \<Longrightarrow> E w"
  shows "valid (running job_id w0 p0 k) (resize_video ad tr out) (\<lambda>_. running job_id w0 p0 k) E"
  unfolding resize_video_def
  by (intro valid_bind[OF valid_external_value] valid_bind[OF valid_external] valid_write_file assms)

lemma valid_create_highlight_video:
  assumes "\<And>w. running job_id w0 p0 k w \<Longrightarrow> E w"
  shows "valid (running job_id w0 p0 k) (create_highlight_video ad hs out)
           (\<lambda>_. running job_id w0 p0 k) E"
  unfolding create_highlight_video_def Let_def
  by (intro valid_bind[OF valid_external_value] assms)
     (auto intro!: valid_bind[OF valid_external] valid_write_file valid_return assms)

lemma finished_block:
  assumes run: "running job_id w0 p0 k w" and "k \<le> 100"
    and j: "jobs w job_id = Some j"
    and lg': "log w' = log w @ blk"
    and ids: "list_all (\<lambda>e. event_id e = job_id) blk"
    and blk: "terminal_block_last blk"
    and pubs: "publishes blk = [(job_id, j')]"
    and job: "jobs w' job_id = Some j'"
    and fin: "terminal j'"
    and prog: "progress j' = (if status j' = Completed then Some 100 else progress j)"
  shows "finished job_id w0 p0 w'"
proof -
  from run j obtain q es where lg: "log w = log w0 @ es"
    and q: "progress j = Some q" "q \<le> k"
    and nt: "list_all (\<lambda>e. \<not> terminal (event_job e)) (filter (\<lambda>e. event_id e = job_id) es)"
    and tr: "trace_ok p0 q (map snd (filter (\<lambda>p. fst p = job_id) (publishes es)))"
    by (auto simp: running_def)
  let ?js = "map snd (filter (\<lambda>p. fst p = job_id) (publishes es))"
  have all: "log w' = log w0 @ (es @ blk)"
    using lg lg' by simp
  have sn: "snapshots job_id w0 w' = ?js @ [j']"
    using snapshots_log[OF all, of job_id] pubs by simp
  have "filter (\<lambda>e. event_id e = job_id) blk = blk"
    using ids by (simp add: list_all_iff)
  then have ev: "events job_id w0 w' = filter (\<lambda>e. event_id e = job_id) es @ blk"
    using events_log[OF all, of job_id] by simp
  obtain q' where q': "progress j' = Some q'" "q \<le> q'" "q' \<le> 100"
    using prog q tr \<open>k \<le> 100\<close> by (auto simp: trace_ok_def split: if_splits)
  have proc: "list_all (\<lambda>s. status s = Processing) ?js"
    using tr by (simp add: trace_ok_def)
  have "progress_bounded (?js @ [j'])"
    using tr q' by (simp add: progress_bounded_snoc trace_ok_def)
  moreover have "progress_monotone p0 (?js @ [j'])"
  proof (rule progress_monotone_snoc[where q = q'])
    show "progress_monotone p0 ?js" using tr by (simp add: trace_ok_def)
    show "list_all (\<lambda>s. case progress s of None \<Rightarrow> False | Some r \<Rightarrow> r \<le> q') ?js"
      using tr q'(2) by (auto simp: trace_ok_def intro: list_all_le_mono)
    show "p0 \<le> q'" using tr q'(2) by (simp add: trace_ok_def)
    show "progress j' = Some q'" by (rule q'(1))
  qed
  moreover have "completed_at_100 (?js @ [j'])"
    using completed_at_100_processing[OF proc] prog by (simp add: completed_at_100_snoc)
  moreover have "terminal_only_last (?js @ [j'])"
    by (rule terminal_only_last_snoc[OF proc])
  moreover have "terminal_block_last (events job_id w0 w')"
    unfolding ev by (rule terminal_block_last_append[OF nt blk])
  ultimately show ?thesis
    using sn job fin by (simp add: finished_def)
qed

lemma valid_complete_job:
  assumes "k \<le> 100"
  shows "valid (running job_id w0 p0 k) (complete_job job_id d md) (\<lambda>_. finished job_id w0 p0) E"
  unfolding valid_def
proof (intro allI impI)
  fix w assume run: "running job_id w0 p0 k w"
  then obtain j where j: "jobs w job_id = Some j" by (auto simp: running_def)
  define j' where "j' = j\<lparr> status := Completed, progress := Some 100,
                  message := Text ''Processing completed successfully!'',
                  output_dir := Some d, job_metadata := Some md \<rparr>"
  define blk where "blk =
    [Write job_id (j\<lparr> status := Completed \<rparr>),
     Write job_id (j\<lparr> status := Completed, progress := Some 100 \<rparr>),
     Write job_id (j\<lparr> status := Completed, progress := Some 100,
                      message := Text ''Processing completed successfully!'' \<rparr>),
     Write job_id (j\<lparr> status := Completed, progress := Some 100,
                      message := Text ''Processing completed successfully!'',
                      output_dir := Some d \<rparr>),
     Write job_id j', Publish job_id j']"
  define w' where "w' = snd (complete_job job_id d md w)"
  have res: "complete_job job_id d md w = (Inr (), w')"
    and lg': "log w' = log w @ blk"
    and job: "jobs w' job_id = Some j'"
    using j by (simp_all add: w'_def j'_def blk_def complete_job_unfold)
  have "finished job_id w0 p0 w'"
    by (rule finished_block[OF run assms j lg' _ _ _ job])
       (simp_all add: blk_def j'_def terminal_def)
  with res show "case complete_job job_id d md w of
                   (Inl e, w') \<Rightarrow> E w' | (Inr x, w') \<Rightarrow> finished job_id w0 p0 w'"
    by simp
qed

lemma valid_fail_job:
  assumes "k \<le> 100"
  shows "valid (running job_id w0 p0 k) (fail_job job_id e) (\<lambda>_. finished job_id w0 p0) E"
  unfolding valid_def
proof (intro allI impI)
  fix w assume run: "running job_id w0 p0 k w"
  then obtain j where j: "jobs w job_id = Some j" by (auto simp: running_def)
  define j' where "j' = j\<lparr> status := Error, message := StrOf e \<rparr>"
  define blk where "blk =
    [Write job_id (j\<lparr> status := Error \<rparr>), Write job_id j', Publish job_id j']"
  define w' where "w' = snd (fail_job job_id e w)"
  have res: "fail_job job_id e w = (Inr (), w')"
    and lg': "log w' = log w @ blk"
    and job: "jobs w' job_id = Some j'"
    using j by (simp_all add: w'_def j'_def blk_def fail_job_unfold)
  have "finished job_id w0 p0 w'"
    by (rule finished_block[OF run assms j lg' _ _ _ job])
       (simp_all add: blk_def j'_def terminal_def)
  with res show "case fail_job job_id e w of
                   (Inl e, w') \<Rightarrow> E w' | (Inr x, w') \<Rightarrow> finished job_id w0 p0 w'"
    by simp
qed

lemma valid_try_except:
  assumes body: "valid P body (\<lambda>_. Q) H"
    and handler: "\<And>e. valid H (handler e) (\<lambda>_. Q) E"
  shows "valid P (\<lambda>w. case body w of (Inr u, w') \<Rightarrow> (Inr (), w') | (Inl e, w') \<Rightarrow> handler e w')
           (\<lambda>_. Q) E"
  unfolding valid_def
proof (intro allI impI)
  fix w assume "P w"
  with body have 1: "case body w of (Inl e, w') \<Rightarrow> H w' | (Inr x, w') \<Rightarrow> Q w'"
    by (simp add: valid_def)
  show "case (case body w of (Inr u, w') \<Rightarrow> (Inr (), w') | (Inl e, w') \<Rightarrow> handler e w') of
          (Inl e, w') \<Rightarrow> E w' | (Inr x, w') \<Rightarrow> Q w'"
  proof (cases "body w")
    case (Pair r w')
    show ?thesis
    proof (cases r)
      case (Inl e)
      with Pair 1 have "H w'" by simp
      with handler[of e] have "case handler e w' of (Inl e, w'') \<Rightarrow> E w'' | (Inr y, w'') \<Rightarrow> Q w''"
        by (simp add: valid_def)
      with Pair Inl show ?thesis by simp
    next
      case (Inr x)
      with Pair 1 show ?thesis by simp
    qed
  qed
qed

lemmas valid_steps =
  valid_bind[OF valid_external] valid_bind[OF valid_external_value]
  valid_bind[OF valid_update_job] valid_bind[OF valid_write_file]
  valid_bind[OF valid_resize_video] valid_bind[OF valid_create_highlight_video]

lemma valid_process_video_async_try:
  assumes "k \<le> start_progress + 20" "start_progress \<le> 15"
  shows "valid (running job_id w0 p0 k)
           (process_video_async_try ad job_id video_path fn start_progress)
           (\<lambda>_. finished job_id w0 p0) (running job_id w0 p0 95)"
  unfolding process_video_async_try_def Let_def
  using assms
  by (intro valid_steps valid_complete_job) (auto intro: running_mono)

lemma valid_process_video_async:
  assumes "k \<le> start_progress + 20" "start_progress \<le> 15"
  shows "valid (running job_id w0 p0 k)
           (process_video_async ad job_id video_path fn start_progress)
           (\<lambda>_. finished job_id w0 p0) E"
proof -
  have "valid (running job_id w0 p0 k)
          (\<lambda>w. case process_video_async_try ad job_id video_path fn start_progress w of
                  (Inr u, w') \<Rightarrow> (Inr (), w') | (Inl e, w') \<Rightarrow> fail_job job_id e w')
          (\<lambda>_. finished job_id w0 p0) E"
    by (rule valid_try_except[OF valid_process_video_async_try[OF assms] valid_fail_job]) simp
  moreover have "process_video_async ad job_id video_path fn start_progress =
      (\<lambda>w. case process_video_async_try ad job_id video_path fn start_progress w of
                  (Inr u, w') \<Rightarrow> (Inr (), w') | (Inl e, w') \<Rightarrow> fail_job job_id e w')"
    by (rule ext) (simp add: process_video_async_def split: prod.splits sum.splits)
  ultimately show ?thesis by simp
qed

lemma valid_process_url_async_try:
  assumes "k \<le> 5"
  shows "valid (running job_id w0 p0 k) (process_url_async_try ad job_id url)
           (\<lambda>_. finished job_id w0 p0) (running job_id w0 p0 95)"
  unfolding process_url_async_try_def Let_def
  using assms
  by (intro valid_steps valid_process_video_async) (auto intro: running_mono)

lemma valid_process_url_async:
  assumes "k \<le> 5"
  shows "valid (running job_id w0 p0 k) (process_url_async ad job_id url)
           (\<lambda>_. finished job_id w0 p0) E"
proof -
  have "valid (running job_id w0 p0 k)
          (\<lambda>w. case process_url_async_try ad job_id url w of
                  (Inr u, w') \<Rightarrow> (Inr (), w') | (Inl e, w') \<Rightarrow> fail_job job_id e w')
          (\<lambda>_. finished job_id w0 p0) E"
    by (rule valid_try_except[OF valid_process_url_async_try[OF assms] valid_fail_job]) simp
  moreover have "process_url_async ad job_id url =
      (\<lambda>w. case process_url_async_try ad job_id url w of
                  (Inr u, w') \<Rightarrow> (Inr (), w') | (Inl e, w') \<Rightarrow> fail_job job_id e w')"
    by (rule ext) (simp add: process_url_async_def split: prod.splits sum.splits)
  ultimately show ?thesis by simp
qed

lemma run_finishes:
  assumes v: "valid (running job_id w p k) a (\<lambda>_. finished job_id w p) (\<lambda>_. False)"
    and "jobs w job_id = Some j" "status j = Processing" "progress j = Some p" "p \<le> k" "p \<le> 100"
  shows "fst (a w) = Inr () \<and> finished job_id w p (snd (a w))"
proof -
  have "running job_id w p k w"
    using running_mono[OF running_start[OF assms(2,3,4,6)] assms(5)] .
  with v have "case a w of (Inl e, w') \<Rightarrow> False | (Inr x, w') \<Rightarrow> finished job_id w p w'"
    by (simp add: valid_def)
  then show ?thesis by (cases "a w") (auto split: sum.splits)
qed

subsection \<open>The broadcaster\<close>

text \<open>
  C3 (amended). Publishing a snapshot delivers it, in registration order, to every
  registered observer of the job on which sending succeeds; a failed delivery does not stop
  the delivery to the others and no error reaches the caller; the registry is left as it
  was, so an observer whose delivery failed stays registered.
\<close>

theorem broadcast_best_effort:
  "fst (broadcast job_id m w) = Inr ()
   \<and> active_connections (snd (broadcast job_id m w)) = active_connections w
   \<and> received (snd (broadcast job_id m w)) = received w @ delivered job_id m w"
  by (simp add: broadcast_eq)

text \<open>
  Counterexample to C3 as stated: observers 1 and 2 of one job, observer 1 disconnected.
  After the publish observer 2 has the snapshot and observer 1 is still registered.
\<close>

theorem broadcast_unregister_counterexample:
  "1 \<in> closed two_observers
   \<and> received (snd (broadcast ''job-1'' (new_job (Text ''step'') ''t'') two_observers))
       = [(2, new_job (Text ''step'') ''t'')]
   \<and> active_connections
       (snd (broadcast ''job-1'' (new_job (Text ''step'') ''t'') two_observers)) ''job-1''
       = Some [1, 2]"
  by (simp add: broadcast_eq delivered_def two_observers_def initial_world_def)

subsection \<open>The upload endpoint\<close>

lemmas action_defs = bind_def return_def raise_def external_def external_value_def write_file_def

text \<open>
  C4, at the failing input. An upload of 600 MB with an accepted extension: the
  \<open>HTTPException(413)\<close> is caught by the handler \<open>except Exception\<close> of \<open>process_video\<close>
  itself, which stores an error job under the new id and answers with status 500.
\<close>

theorem oversized_upload_creates_error_job:
  "process_video ''job-2'' \<lparr> filename = ''big.mp4'', content_length = 600 * 1024 * 1024 \<rparr>
     True ''2024-01-01T00:00:00'' initial_world =
   (Inl (HTTPException 500 (StrOf (HTTPException 413 (Text ''File too large (max 500MB)'')))),
    initial_world\<lparr> files := {''uploads/job-2_big.mp4''},
       jobs := [''job-2'' \<mapsto>
                  error_job (HTTPException 413 (Text ''File too large (max 500MB)''))],
       log := [Write ''job-2''
                 (error_job (HTTPException 413 (Text ''File too large (max 500MB)'')))] \<rparr>)"
  by (simp add: process_video_def process_video_try_def action_defs set_job_def endswith_def
        MAX_VIDEO_SIZE_MB_def initial_world_def Let_def path_join_def UPLOAD_DIR_def
        str_int_def str_nat.simps)

text \<open>
  The same happens for every oversized upload with an accepted extension, whereas
  \<open>process_video_url\<close> passes its own \<open>HTTPException\<close> on and stores no job.
\<close>

lemma oversized_upload_any:
  assumes "list_ex (endswith (filename file)) [''.mp4'', ''.avi'', ''.mov'', ''.mkv'']"
    and "real (content_length file) / (1024 * 1024) > real_of_int MAX_VIDEO_SIZE_MB"
  shows "fst (process_video job_id file background_tasks timestamp w)
           = Inl (HTTPException 500
                   (StrOf (HTTPException 413 (Text ''File too large (max 500MB)''))))
       \<and> jobs (snd (process_video job_id file background_tasks timestamp w)) job_id
           = Some (error_job (HTTPException 413 (Text ''File too large (max 500MB)'')))"
  using assms
  by (simp add: process_video_def process_video_try_def action_defs set_job_def Let_def
        MAX_VIDEO_SIZE_MB_def str_int_def str_nat.simps)

lemma invalid_url_passes_through:
  "\<not> list_ex (startswith url) [''http://'', ''https://''] \<Longrightarrow>
   process_video_url job_id url background_tasks timestamp w
     = (Inl (HTTPException 400 (Text ''Invalid URL format'')), w)"
  by (simp add: process_video_url_def process_video_url_try_def action_defs)

lemma submitted_job:
  "jobs submitted_world ''job-1'' =
     Some (new_job (Text ''Uploaded successfully, starting processing...'')
             ''2024-01-01T00:00:00'')"
  by (simp add: submitted_world_def process_video_def process_video_try_def action_defs
        set_job_def add_task_def endswith_def MAX_VIDEO_SIZE_MB_def initial_world_def Let_def)

lemma submitted_files: "files submitted_world = {''uploads/job-1_clip.mp4''}"
  by (simp add: submitted_world_def process_video_def process_video_try_def action_defs
        set_job_def add_task_def endswith_def MAX_VIDEO_SIZE_MB_def initial_world_def Let_def
        path_join_def UPLOAD_DIR_def)

lemma resize_mock:
  "resize_geometry TARGET_RESOLUTION (1920, 1080)
     = Inr \<lparr> new_w = 1920, new_h = 1080, crop_x1 = 0, crop_y1 = 0,
             crop_x2 = 1920, crop_y2 = 1080 \<rparr>"
  by (simp add: resize_geometry_def TARGET_RESOLUTION_def py_int_def)

subsection \<open>The pipeline\<close>

lemma new_job_runs:
  assumes "jobs w job_id = Some (new_job text timestamp)"
    and "valid (running job_id w 0 0) a (\<lambda>_. finished job_id w 0) (\<lambda>_. False)"
  shows "fst (a w) = Inr () \<and> finished job_id w 0 (snd (a w))"
  by (rule run_finishes[OF assms(2,1)]) (simp_all add: new_job_def)

text \<open>
  C5. For a job as the submission endpoints create it, the snapshots published by
  \<open>process_video_async\<close> (upload jobs, \<open>start_progress = 0\<close>) and by
  \<open>process_url_async\<close> (URL jobs, which continue with \<open>start_progress = 15\<close>) have progress
  values that are at most 100 and never decrease, starting from the initial 0; a
  snapshot with status completed has progress 100; and the job record at the end is the
  last snapshot.
\<close>

theorem progress_invariant:
  assumes "jobs w job_id = Some (new_job text timestamp)"
  shows "(let w' = snd (process_video_async ad job_id video_path fn 0 w);
              js = snapshots job_id w w'
          in js \<noteq> [] \<and> jobs w' job_id = Some (last js)
             \<and> progress_bounded js \<and> progress_monotone 0 js \<and> completed_at_100 js)
       \<and> (let w' = snd (process_url_async ad job_id url w);
              js = snapshots job_id w w'
          in js \<noteq> [] \<and> jobs w' job_id = Some (last js)
             \<and> progress_bounded js \<and> progress_monotone 0 js \<and> completed_at_100 js)"
  using new_job_runs[OF assms valid_process_video_async, of 0 ad video_path fn]
        new_job_runs[OF assms valid_process_url_async, of ad url]
  by (simp add: finished_def Let_def)

theorem progress_invariant_witness:
  "jobs submitted_world ''job-1'' =
     Some (new_job (Text ''Uploaded successfully, starting processing...'')
             ''2024-01-01T00:00:00'')
   \<and> (let w' = snd (process_video_async
                     (mock_adapters [\<lparr> hl_start = 3, hl_end = 5, hl_reason = ''key'',
                                       hl_score = 90 \<rparr>])
                     ''job-1'' ''uploads/job-1_clip.mp4'' ''clip.mp4'' 0 submitted_world);
           js = snapshots ''job-1'' submitted_world w'
       in js \<noteq> [] \<and> jobs w' ''job-1'' = Some (last js)
          \<and> progress_bounded js \<and> progress_monotone 0 js \<and> completed_at_100 js)"
  using progress_invariant[OF submitted_job,
          of "mock_adapters [\<lparr> hl_start = 3, hl_end = 5, hl_reason = ''key'', hl_score = 90 \<rparr>]"
             "''uploads/job-1_clip.mp4''" "''clip.mp4''"]
        submitted_job
  by simp




subsection \<open>An empty list of highlights\<close>

text \<open>
  C10. When the highlight model answers with an empty list and every other step
  succeeds, \<open>process_video_async\<close> returns normally and leaves the job completed;
  \<open>create_highlight_video\<close> has written no \<open>highlights.mp4\<close>, so \<open>download_file\<close> for
  the kind \<open>highlights\<close> of that job raises the 404 \<open>File not found\<close>.
\<close>

theorem empty_highlights_not_found:
  assumes "jobs w job_id = Some j"
    and "makedirs ad = None" "extract_audio ad = None" "extract_subtitles ad = Inr subs"
      "detect_highlights ad = Inr []" "video_size ad = Inr sz"
      "resize_geometry TARGET_RESOLUTION sz = Inr plan" "resize_write ad = None"
      "generate_srt subs = Inr srt" "srt_write ad = None" "add_subtitles ad = None"
      "video_duration ad = Inr D" "metadata_write ad = None"
    and "path_join (path_join OUTPUT_DIR job_id) ''highlights.mp4'' \<notin> files w"
  shows "fst (process_video_async ad job_id video_path fn 0 w) = Inr ()
       \<and> (case jobs (snd (process_video_async ad job_id video_path fn 0 w)) job_id of
            None \<Rightarrow> False | Some j' \<Rightarrow> status j' = Completed)
       \<and> download_file job_id ''highlights''
           (snd (process_video_async ad job_id video_path fn 0 w))
           = Inl (HTTPException 404 (Text ''File not found''))"
  using assms
  by (simp add: process_video_async_def process_video_async_try_def action_defs
        resize_video_def create_highlight_video_def update_job_unfold complete_job_unfold
        download_file_def file_mapping_def media_types_def path_join_def Let_def)

theorem empty_highlights_not_found_witness:
  "detect_highlights (mock_adapters []) = Inr []
   \<and> path_join (path_join OUTPUT_DIR ''job-1'') ''highlights.mp4'' \<notin> files submitted_world
   \<and> fst (process_video_async (mock_adapters []) ''job-1'' ''uploads/job-1_clip.mp4''
            ''clip.mp4'' 0 submitted_world) = Inr ()
   \<and> (case jobs (snd (process_video_async (mock_adapters []) ''job-1''
                        ''uploads/job-1_clip.mp4'' ''clip.mp4'' 0 submitted_world)) ''job-1'' of
        None \<Rightarrow> False | Some j' \<Rightarrow> status j' = Completed)
   \<and> download_file ''job-1'' ''highlights''
       (snd (process_video_async (mock_adapters []) ''job-1'' ''uploads/job-1_clip.mp4''
              ''clip.mp4'' 0 submitted_world))
       = Inl (HTTPException 404 (Text ''File not found''))"
proof -
  have fresh: "path_join (path_join OUTPUT_DIR ''job-1'') ''highlights.mp4''
                 \<notin> files submitted_world"
    by (simp add: submitted_files path_join_def OUTPUT_DIR_def)
  have hl: "detect_highlights (mock_adapters []) = Inr []"
    by (simp add: mock_adapters_def)
  show ?thesis
    using empty_highlights_not_found[OF submitted_job _ _ _ hl _ resize_mock _
            generate_srt_mock _ _ _ _ fresh,
            of 10 "''uploads/job-1_clip.mp4''" "''clip.mp4''"]
          fresh hl
    by (simp add: mock_adapters_def)
qed

subsection \<open>Two concrete runs\<close>

text \<open>
  An upload job on which every step succeeds, and a URL job whose highlight inference
  fails: the status and progress of every published snapshot.
\<close>

lemma upload_run_trace:
  "map (\<lambda>j. (status j, progress j))
     (snapshots ''job-1'' submitted_world
        (snd (process_video_async
               (mock_adapters
                  [\<lparr> hl_start = 3, hl_end = 5, hl_reason = ''key'', hl_score = 90 \<rparr>])
               ''job-1'' ''uploads/job-1_clip.mp4'' ''clip.mp4'' 0 submitted_world)))
   = [(Processing, Some 20), (Processing, Some 35), (Processing, Some 50),
      (Processing, Some 60), (Processing, Some 70), (Processing, Some 80),
      (Processing, Some 95), (Completed, Some 100)]"
  using submitted_job generate_srt_mock resize_mock fsub_reel
  by (simp add: process_video_async_def process_video_async_try_def action_defs
        resize_video_def create_highlight_video_def update_job_unfold complete_job_unfold
        mock_adapters_def snapshots_def published_def Let_def)

lemma url_run_trace:
  "map (\<lambda>j. (status j, progress j))
     (snapshots ''job-1'' submitted_world
        (snd (process_url_async
               ((mock_adapters [])\<lparr> detect_highlights := Inl (Failure ''no JSON array'') \<rparr>)
               ''job-1'' ''https://example.org/v'' submitted_world)))
   = [(Processing, Some 5), (Processing, Some 15), (Processing, Some 35),
      (Processing, Some 50), (Processing, Some 65), (Error, Some 65)]"
  using submitted_job
  by (simp add: process_url_async_def process_url_async_try_def
        process_video_async_def process_video_async_try_def action_defs
        update_job_unfold fail_job_unfold mock_adapters_def snapshots_def published_def Let_def)

end
